theory Spec2Isabelle
  imports Complex_Main
begin

section \<open>The event store of \<open>rfid_reader.py\<close>\<close>

text \<open>
  The table \<open>card_reads\<close> of \<open>DatabaseManager.init_database\<close>. SQLite keeps a
  \<open>DATETIME\<close> as the text \<open>YYYY-MM-DD HH:MM:SS\<close> and compares it as text, which for this
  format is the order of the instants; a time is modelled as the number of seconds it
  denotes. A column that may hold \<open>NULL\<close> on some path of the source is an \<open>option\<close>.
  The columns with a default (\<open>timestamp\<close>, \<open>sync_status\<close>, \<open>sync_attempts\<close>,
  \<open>created_at\<close>) are never written with \<open>NULL\<close> by the source. \<open>sync_attempts\<close> starts
  at 0 and the callers in the source only ever count upwards, so it is a \<open>nat\<close>.
\<close>

type_synonym time = int

record card_read =
  row_id :: int
  device_id :: string
  card_id :: string
  card_value :: string
  timestamp :: time
  sync_status :: string
  sync_attempts :: nat
  last_sync_attempt :: "time option"
  next_retry :: "time option"
  webhook_response :: "string option"
  created_at :: time

text \<open>
  The database file as \<open>DatabaseManager\<close> sees it: the rows of \<open>card_reads\<close> in rowid
  order, and the counter that \<open>AUTOINCREMENT\<close> keeps in \<open>sqlite_sequence\<close> (the largest
  rowid ever handed out).
\<close>

record store =
  card_reads :: "card_read list"
  sqlite_sequence :: int

definition empty_store :: store where
  "empty_store = \<lparr>card_reads = [], sqlite_sequence = 0\<rparr>"

text \<open>\<open>AUTOINCREMENT\<close>: one more than the largest rowid in the table or ever handed out.\<close>

definition next_rowid :: "store \<Rightarrow> int" where
  "next_rowid db = fold max (map row_id (card_reads db)) (sqlite_sequence db) + 1"

text \<open>
  \<open>insert_card_read\<close>: one \<open>INSERT\<close> naming \<open>device_id\<close>, \<open>card_id\<close>, \<open>card_value\<close> and
  \<open>next_retry = datetime('now')\<close>; the other columns take their defaults
  (\<open>CURRENT_TIMESTAMP\<close> is the same clock as \<open>datetime('now')\<close>, read once for the
  statement). Returns the new store and \<open>cursor.lastrowid\<close>.
\<close>

definition insert_card_read :: "store \<Rightarrow> time \<Rightarrow> string \<Rightarrow> string \<Rightarrow> string \<Rightarrow> store \<times> int" where
  "insert_card_read db now dev cid cval =
     (let rid = next_rowid db;
          r = \<lparr>row_id = rid, device_id = dev, card_id = cid, card_value = cval,
               timestamp = now, sync_status = ''pending'', sync_attempts = 0,
               last_sync_attempt = None, next_retry = Some now,
               webhook_response = None, created_at = now\<rparr>
      in (\<lparr>card_reads = card_reads db @ [r], sqlite_sequence = rid\<rparr>, rid))"

text \<open>
  \<open>get_pending_syncs\<close>. The \<open>WHERE\<close> clause of the query, the columns it selects, and
  the query itself: rows that pass the \<open>WHERE\<close> clause, ordered by \<open>created_at\<close>
  (rows with equal \<open>created_at\<close> are kept in rowid order here; SQLite does not promise
  an order among them). The method only reads: it hands back the store as it was.

  \<open>max_age_days\<close> is a count of days, pasted into \<open>datetime('now', '-N days')\<close>. SQLite
  counts time from Julian day 0, which is 210866760000 seconds before 1970-01-01 00:00:00
  UTC; a date before that does not exist for it, \<open>datetime\<close> is then \<open>NULL\<close>, and a
  comparison with \<open>NULL\<close> selects no row. (A date between Julian day 0 and the year 0
  is printed with a leading minus sign, which as text is below every \<open>created_at\<close>.)
\<close>

definition julian_day_zero :: time where
  "julian_day_zero = - 210866760000"

definition days_before :: "time \<Rightarrow> nat \<Rightarrow> time option" where
  "days_before now n =
     (if julian_day_zero \<le> now - 86400 * int n then Some (now - 86400 * int n) else None)"

type_synonym pending_sync = "int \<times> string \<times> string \<times> string \<times> time \<times> nat \<times> time option"

definition is_due :: "time \<Rightarrow> nat \<Rightarrow> card_read \<Rightarrow> bool" where
  "is_due now max_age_days r =
     (sync_status r = ''pending''
      \<and> (case next_retry r of None \<Rightarrow> True | Some t \<Rightarrow> t \<le> now)
      \<and> (case days_before now max_age_days of
           None \<Rightarrow> False
         | Some oldest \<Rightarrow> created_at r \<ge> oldest))"

definition selected :: "card_read \<Rightarrow> pending_sync" where
  "selected r = (row_id r, device_id r, card_id r, card_value r, timestamp r,
                 sync_attempts r, last_sync_attempt r)"

definition get_pending_syncs :: "store \<Rightarrow> time \<Rightarrow> nat \<Rightarrow> pending_sync list \<times> store" where
  "get_pending_syncs db now max_age_days =
     (map selected (sort_key created_at (filter (is_due now max_age_days) (card_reads db))), db)"

text \<open>
  The backoff of \<open>update_sync_status\<close>: \<open>min(2 ** (attempts - 1), 1440)\<close>, in minutes.
  Python's \<open>2 ** -1\<close> is the float \<open>0.5\<close>, so the value is a rational; \<open>timedelta\<close> turns
  it into seconds, and \<open>strftime('%Y-%m-%d %H:%M:%S')\<close> drops what is below a second.
\<close>

definition backoff_minutes :: "nat \<Rightarrow> rat" where
  "backoff_minutes attempts = min (if attempts = 0 then 1 / 2 else 2 ^ (attempts - 1)) 1440"

definition backoff_seconds :: "nat \<Rightarrow> int" where
  "backoff_seconds attempts = \<lfloor>60 * backoff_minutes attempts\<rfloor>"

text \<open>
  \<open>update_sync_status\<close>. Two clocks are read: SQLite's \<open>datetime('now')\<close>, which is
  UTC (\<open>now\<close>), and Python's \<open>datetime.now()\<close>, which is the wall clock of the host in its
  own time zone (\<open>local_now\<close>). With \<open>attempts = None\<close> the count is read back from the
  row; \<open>fetchone()\<close> is \<open>None\<close> when no row has the id, the \<open>TypeError\<close> is caught and
  logged by the method, and nothing is written.
\<close>

definition set_success :: "time \<Rightarrow> string \<Rightarrow> string option \<Rightarrow> card_read \<Rightarrow> card_read" where
  "set_success now status response r =
     r\<lparr>sync_status := status, webhook_response := response, last_sync_attempt := Some now\<rparr>"

definition set_retry :: "time \<Rightarrow> time \<Rightarrow> string \<Rightarrow> string option \<Rightarrow> nat \<Rightarrow> card_read \<Rightarrow> card_read" where
  "set_retry now local_now status response attempts r =
     r\<lparr>sync_status := status, sync_attempts := attempts, last_sync_attempt := Some now,
       next_retry := Some (local_now + backoff_seconds attempts),
       webhook_response := response\<rparr>"

definition update_where :: "int \<Rightarrow> (card_read \<Rightarrow> card_read) \<Rightarrow> store \<Rightarrow> store" where
  "update_where rid f db =
     db\<lparr>card_reads := map (\<lambda>r. if row_id r = rid then f r else r) (card_reads db)\<rparr>"

definition update_sync_status ::
  "store \<Rightarrow> time \<Rightarrow> time \<Rightarrow> int \<Rightarrow> string \<Rightarrow> string option \<Rightarrow> nat option \<Rightarrow> store" where
  "update_sync_status db now local_now rid status response attempts =
     (if status = ''success'' then update_where rid (set_success now status response) db
      else
        (case attempts of
           Some a \<Rightarrow> update_where rid (set_retry now local_now status response a) db
         | None \<Rightarrow>
             (case find (\<lambda>r. row_id r = rid) (card_reads db) of
                None \<Rightarrow> db
              | Some r \<Rightarrow>
                  update_where rid
                    (set_retry now local_now status response (sync_attempts r + 1)) db)))"

section \<open>The delivery client and the sync pass of \<open>RFIDReader\<close>\<close>

text \<open>
  What \<open>RFIDReader\<close> keeps of its configuration file (\<open>self.config.get\<close> is \<open>None\<close> for
  a missing key) and the device id that \<open>get_device_id\<close> settled on.
\<close>

record config =
  webhook_url :: "string option"
  api_key :: "string option"

record reader =
  config :: config
  self_device_id :: string

text \<open>
  One \<open>requests.post\<close> call, and what it can do: answer with a status code and a body,
  raise a \<open>RequestException\<close>, or raise anything else. The network is a parameter of the
  model, a function from the request to what happens.
\<close>

record request =
  url :: string
  json :: "(string \<times> string) list"
  headers :: "(string \<times> string) list"
  timeout :: nat

datatype http_result = Response nat string | RequestException string | OtherException string

text \<open>Python's \<open>not x\<close> on a configuration value: \<open>None\<close> and the empty string are false.\<close>

definition falsy :: "string option \<Rightarrow> bool" where
  "falsy v = (case v of None \<Rightarrow> True | Some s \<Rightarrow> s = [])"

text \<open>The decimal digits of a status code, as the f-string prints them.\<close>

fun str_nat :: "nat \<Rightarrow> string" where
  "str_nat n =
     (if n < 10 then [char_of (48 + n)] else str_nat (n div 10) @ [char_of (48 + n mod 10)])"

declare str_nat.simps [simp del]

text \<open>
  \<open>send_webhook\<close>. The result carries the requests that went out on the network, then
  what the method returned (\<open>Inr (success, response)\<close>) or the message of the exception
  that left it (\<open>Inl\<close>).
\<close>

definition send_webhook ::
  "reader \<Rightarrow> (request \<Rightarrow> http_result) \<Rightarrow> string \<Rightarrow> string \<Rightarrow> request list \<times> (string + bool \<times> string)" where
  "send_webhook self post cid cval =
     (if falsy (webhook_url (config self)) then ([], Inr (False, ''No webhook URL configured''))
      else
        (let payload = [(''device_id'', self_device_id self), (''card_id'', cid),
                        (''card_value'', cval)];
             hdrs = [(''Content-Type'', ''application/json'')]
                    @ (if falsy (api_key (config self)) then []
                       else [(''x-api-key'', the (api_key (config self)))]);
             req = \<lparr>url = the (webhook_url (config self)), json = payload, headers = hdrs,
                    timeout = 10\<rparr>
         in case post req of
              Response status_code text \<Rightarrow>
                if status_code = 200 then ([req], Inr (True, text))
                else ([req], Inr (False, ''HTTP '' @ str_nat status_code @ '': '' @ text))
            | RequestException e \<Rightarrow> ([req], Inr (False, e))
            | OtherException e \<Rightarrow> ([req], Inl e)))"

text \<open>
  The body of the loop of \<open>sync_pending_data\<close> for one fetched row, and the method. The
  row's outcome is written at the UTC time \<open>written_at rid\<close>; the host's wall clock then shows
  \<open>written_at rid + utc_offset\<close>. The state threaded through the loop is the store and the
  requests sent so far.
\<close>

fun sync_one ::
  "reader \<Rightarrow> (request \<Rightarrow> http_result) \<Rightarrow> int \<Rightarrow> (int \<Rightarrow> time) \<Rightarrow> pending_sync
   \<Rightarrow> store \<times> request list \<Rightarrow> store \<times> request list" where
  "sync_one self post utc_offset written_at (rid, dev, cid, cval, ts, attempts, last_attempt) (db, sent) =
     (let now = written_at rid; local_now = written_at rid + utc_offset
      in case send_webhook self post cid cval of
           (reqs, Inr (success, response)) \<Rightarrow>
             if success
             then (update_sync_status db now local_now rid ''success'' (Some response) None,
                   sent @ reqs)
             else (update_sync_status db now local_now rid ''pending'' (Some response)
                     (Some (attempts + 1)), sent @ reqs)
         | (reqs, Inl e) \<Rightarrow>
             (update_sync_status db now local_now rid ''pending'' (Some e)
                (Some (attempts + 1)), sent @ reqs))"

definition sync_pending_data ::
  "reader \<Rightarrow> (request \<Rightarrow> http_result) \<Rightarrow> int \<Rightarrow> (int \<Rightarrow> time) \<Rightarrow> time \<Rightarrow> store
   \<Rightarrow> store \<times> request list" where
  "sync_pending_data self post utc_offset written_at now db =
     (let pending_syncs = fst (get_pending_syncs db now 7)
      in if pending_syncs = [] then (db, [])
         else fold (sync_one self post utc_offset written_at) pending_syncs (db, []))"

text \<open>
  The operations that \<open>rfid_reader.py\<close> performs on the store, for statements about every
  later operation: the capture path's insert, one call of \<open>update_sync_status\<close>, and one
  pass of the sync worker.
\<close>

datatype operation =
    Append time string string string
  | Outcome time time int string "string option" "nat option"
  | Drain reader "request \<Rightarrow> http_result" int "int \<Rightarrow> time" time

fun apply_operation :: "operation \<Rightarrow> store \<Rightarrow> store" where
  "apply_operation (Append now dev cid cval) db = fst (insert_card_read db now dev cid cval)"
| "apply_operation (Outcome now local_now rid status response attempts) db =
     update_sync_status db now local_now rid status response attempts"
| "apply_operation (Drain self post utc_offset written_at now) db =
     fst (sync_pending_data self post utc_offset written_at now db)"

text \<open>An operation that records a non-success outcome for the event \<open>rid\<close>.\<close>

fun records_failure_for :: "int \<Rightarrow> operation \<Rightarrow> bool" where
  "records_failure_for rid (Outcome now local_now i status response attempts) =
     (i = rid \<and> status \<noteq> ''success'')"
| "records_failure_for rid (Append now dev cid cval) = False"
| "records_failure_for rid (Drain self post utc_offset written_at now) = False"

text \<open>
  The event \<open>rid\<close> exists and every row carrying that id has the status that
  \<open>update_sync_status\<close> writes on success.
\<close>

definition delivered :: "int \<Rightarrow> store \<Rightarrow> bool" where
  "delivered rid db =
     (rid \<in> row_id ` set (card_reads db)
      \<and> list_all (\<lambda>r. row_id r \<noteq> rid \<or> sync_status r = ''success'') (card_reads db))"

section \<open>The schema migrator, \<open>migrate_db.py\<close>\<close>

text \<open>
  Modelled from the spec: the legacy layout of \<open>card_reads\<close>, whose \<open>CREATE TABLE\<close> is
  not in the sources. Its columns are the ones the \<open>SELECT\<close> of \<open>migrate_database\<close>
  reads (the current columns without \<open>card_id\<close>, the single payload field being
  \<open>card_value\<close>), with the types of the current table.
\<close>

record legacy_read =
  old_id :: int
  old_device_id :: string
  old_card_value :: string
  old_timestamp :: time
  old_sync_status :: string
  old_sync_attempts :: nat
  old_last_sync_attempt :: "time option"
  old_next_retry :: "time option"
  old_webhook_response :: "string option"
  old_created_at :: time

definition legacy_columns :: "string list" where
  "legacy_columns = [''id'', ''device_id'', ''card_value'', ''timestamp'', ''sync_status'',
     ''sync_attempts'', ''last_sync_attempt'', ''next_retry'', ''webhook_response'',
     ''created_at'']"

definition current_columns :: "string list" where
  "current_columns = [''id'', ''device_id'', ''card_id'', ''card_value'', ''timestamp'',
     ''sync_status'', ''sync_attempts'', ''last_sync_attempt'', ''next_retry'',
     ''webhook_response'', ''created_at'']"

text \<open>
  The file at \<open>db_path\<close>: one that \<open>sqlite3.connect\<close> cannot open, one that opens but
  cannot be queried (not a database, damaged), a database without a \<open>card_reads\<close>
  table, one holding the legacy table, one holding the current table. The first two
  carry the message of the exception. The flag of the third says whether the database
  holds a table \<open>card_reads_new\<close>, which a failed run leaves behind. Files with a
  \<open>card_reads\<close> table of some third shape are outside this model.
\<close>

datatype db_file =
    Unopenable string
  | Unreadable string
  | No_table bool
  | Legacy_db "legacy_read list"
  | Current_db store

datatype level = INFO | ERROR

type_synonym log = "(level \<times> string) list"

text \<open>\<open>PRAGMA table_info(card_reads)\<close>, column 1 of each row; \<open>Inl\<close> is the exception.\<close>

fun table_info :: "db_file \<Rightarrow> string + string list" where
  "table_info (Unopenable e) = Inl e"
| "table_info (Unreadable e) = Inl e"
| "table_info (No_table leftover) = Inr []"
| "table_info (Legacy_db rows) = Inr legacy_columns"
| "table_info (Current_db db) = Inr current_columns"

definition check_schema_version :: "db_file \<Rightarrow> log \<times> string" where
  "check_schema_version f =
     (case table_info f of
        Inr columns \<Rightarrow> ([], if ''card_id'' \<in> set columns then ''new'' else ''old'')
      | Inl e \<Rightarrow> ([(ERROR, ''Error checking schema: '' @ e)], ''unknown''))"

text \<open>
  The \<open>INSERT INTO card_reads_new ... SELECT ... FROM card_reads\<close> for one row, and the
  table that replaces the old one; the explicit ids move the \<open>AUTOINCREMENT\<close> counter of
  the new table to the largest of them.
\<close>

definition migrate_row :: "legacy_read \<Rightarrow> card_read" where
  "migrate_row l =
     \<lparr>row_id = old_id l, device_id = old_device_id l, card_id = old_card_value l,
      card_value = [], timestamp = old_timestamp l, sync_status = old_sync_status l,
      sync_attempts = old_sync_attempts l, last_sync_attempt = old_last_sync_attempt l,
      next_retry = old_next_retry l, webhook_response = old_webhook_response l,
      created_at = old_created_at l\<rparr>"

definition migrated_store :: "legacy_read list \<Rightarrow> store" where
  "migrated_store rows =
     \<lparr>card_reads = map migrate_row rows, sqlite_sequence = fold max (map old_id rows) 0\<rparr>"

text \<open>
  \<open>migrate_database\<close>: the log lines it writes, then \<open>Inr\<close> the file it leaves when it
  returns, or \<open>Inl\<close> the message of the exception it re-raises together with the file
  it leaves. \<open>sqlite3.connect\<close> comes first and its failure is re-raised; the schema
  check follows. \<open>CREATE TABLE card_reads_new\<close> runs outside any transaction and stays
  when a later statement raises. Without a \<open>card_reads\<close> table the copy raises, and on
  the next run it is \<open>CREATE TABLE\<close> that raises. The last case of the copy is not
  reached: a file that cannot be queried is \<open>unknown\<close> and the current layout is \<open>new\<close>.
\<close>

definition migrate_database :: "db_file \<Rightarrow> log \<times> (string \<times> db_file + db_file)" where
  "migrate_database f =
     (case f of
        Unopenable e \<Rightarrow> ([(ERROR, ''Error during migration: '' @ e)], Inl (e, f))
      | _ \<Rightarrow>
          (let (lg, schema_version) = check_schema_version f
           in if schema_version = ''new''
              then (lg @ [(INFO, ''Database already has new schema (card_id + card_value)'')],
                    Inr f)
              else if schema_version = ''unknown''
              then (lg @ [(ERROR, ''Could not determine database schema'')], Inr f)
              else
                (case f of
                   Legacy_db rows \<Rightarrow>
                     (lg @ [(INFO, ''Migrating database from old schema to new schema...''),
                            (INFO, ''Database migration completed successfully!'')],
                      Inr (Current_db (migrated_store rows)))
                 | No_table leftover \<Rightarrow>
                     (let e = (if leftover then ''table card_reads_new already exists''
                               else ''no such table: card_reads'')
                      in (lg @ [(INFO, ''Migrating database from old schema to new schema...''),
                                (ERROR, ''Error during migration: '' @ e)],
                          Inl (e, No_table True)))
                 | _ \<Rightarrow> (lg, Inr f))))"

text \<open>
  \<open>main\<close> of the migration script: the log, how the process ends, and the file it
  leaves (\<open>None\<close>: there is no file at \<open>db_path\<close>). \<open>sys.exit(1)\<close> raises \<open>SystemExit\<close>,
  which \<open>except Exception\<close> does not catch.
\<close>

datatype exit_status = Returned | Exit nat

definition db_path :: string where
  "db_path = ''/var/lib/rfid_reader/card_reads.db''"

definition main :: "db_file option \<Rightarrow> log \<times> exit_status \<times> db_file option" where
  "main file =
     (case file of
        None \<Rightarrow> ([(INFO, ''Database does not exist yet, no migration needed'')], Returned, None)
      | Some f \<Rightarrow>
          (let lg0 = [(INFO, ''Checking database schema: '' @ db_path)];
               (lg1, schema_version) = check_schema_version f
           in if schema_version = ''new''
              then (lg0 @ lg1 @ [(INFO, ''Database already has the new schema'')], Returned,
                    Some f)
              else if schema_version = ''old''
              then
                (let lg2 = [(INFO, ''Database has old schema, migrating...'')]
                 in case migrate_database f of
                      (lg3, Inr f') \<Rightarrow> (lg0 @ lg1 @ lg2 @ lg3, Returned, Some f')
                    | (lg3, Inl (e, f')) \<Rightarrow>
                        (lg0 @ lg1 @ lg2 @ lg3 @ [(ERROR, ''Migration failed: '' @ e)], Exit 1,
                         Some f'))
              else (lg0 @ lg1 @ [(ERROR, ''Could not determine database schema'')], Exit 1,
                    Some f)))"

section \<open>The retry scheduler\<close>

lemma backoff_minutes_pos: "1 \<le> n \<Longrightarrow> backoff_minutes n = of_nat (min (2 ^ (n - 1)) 1440)"
  by (simp add: backoff_minutes_def of_nat_min)

lemma backoff_minutes_mono: "m \<le> n \<Longrightarrow> backoff_minutes m \<le> backoff_minutes n"
proof -
  assume mn: "m \<le> n"
  have "(if m = 0 then 1 / 2 else 2 ^ (m - 1) :: rat) \<le> (if n = 0 then 1 / 2 else 2 ^ (n - 1))"
  proof (cases "m = 0")
    case True
    have "(1 / 2 :: rat) \<le> 1" by simp
    also have "(1 :: rat) \<le> 2 ^ (n - 1)" by simp
    finally show ?thesis using True by simp
  next
    case False
    with mn have "(2::rat) ^ (m - 1) \<le> 2 ^ (n - 1)"
      by (intro power_increasing) auto
    with False mn show ?thesis by simp
  qed
  then show ?thesis
    unfolding backoff_minutes_def by (rule min.mono) simp
qed

lemma backoff_minutes_saturated: "12 \<le> n \<Longrightarrow> backoff_minutes n = 1440"
proof -
  assume n: "12 \<le> n"
  then have "(2::rat) ^ 11 \<le> 2 ^ (n - 1)"
    by (intro power_increasing) auto
  then have "(1440::rat) \<le> 2 ^ (n - 1)"
    by simp
  with n show ?thesis
    by (simp add: backoff_minutes_def min_def)
qed

lemma backoff_minutes_unsaturated: "n < 12 \<Longrightarrow> backoff_minutes n < 1440"
proof -
  assume "n < 12"
  then have "n - 1 \<le> 10" by simp
  then have "(2::rat) ^ (n - 1) \<le> 2 ^ 10"
    by (intro power_increasing) auto
  then have "(2::rat) ^ (n - 1) < 1440" by simp
  then show ?thesis by (simp add: backoff_minutes_def min_def)
qed

lemma backoff_seconds_pos: "1 \<le> n \<Longrightarrow> backoff_seconds n = 60 * int (min (2 ^ (n - 1)) 1440)"
proof -
  assume "1 \<le> n"
  then have "60 * backoff_minutes n = of_int (60 * int (min (2 ^ (n - 1)) 1440))"
    by (simp add: backoff_minutes_pos)
  then show ?thesis
    unfolding backoff_seconds_def by (simp only: floor_of_int)
qed

lemma backoff_seconds_nonneg: "0 \<le> backoff_seconds n"
  unfolding backoff_seconds_def backoff_minutes_def by (simp add: min_def)

text \<open>The shortest delay is the half minute of a count of 0; from 1 on it is a minute.\<close>

lemma backoff_seconds_ge_30: "30 \<le> backoff_seconds n"
proof (cases "n = 0")
  case True
  then show ?thesis
    by (simp add: backoff_seconds_def backoff_minutes_def)
next
  case False
  then have "backoff_seconds n = 60 * int (min (2 ^ (n - 1)) 1440)"
    by (simp add: backoff_seconds_pos)
  moreover have "(1::nat) \<le> min (2 ^ (n - 1)) 1440"
    by simp
  ultimately show ?thesis
    by linarith
qed

text \<open>
  C1. For every attempt count \<open>n \<ge> 1\<close> the backoff is \<open>min(2^(n-1), 1440)\<close> minutes; the
  delays never decrease as the count grows (\<open>m \<le> n\<close>), never exceed 1440 minutes, and
  are exactly 1440 minutes from the twelfth attempt on and below it before.
\<close>

theorem backoff_spec:
  assumes "1 \<le> m" and "m \<le> n"
  shows "backoff_minutes n = of_nat (min (2 ^ (n - 1)) 1440)
       \<and> backoff_minutes m \<le> backoff_minutes n
       \<and> backoff_minutes n \<le> 1440
       \<and> (if 12 \<le> n then backoff_minutes n = 1440 else backoff_minutes n < 1440)"
proof -
  from assms have n: "1 \<le> n" by simp
  have "backoff_minutes n \<le> 1440"
    by (simp add: backoff_minutes_def)
  moreover have "if 12 \<le> n then backoff_minutes n = 1440 else backoff_minutes n < 1440"
    using backoff_minutes_saturated [of n] backoff_minutes_unsaturated [of n] by simp
  ultimately show ?thesis
    using backoff_minutes_pos [OF n] backoff_minutes_mono [OF assms(2)] by simp
qed

theorem backoff_spec_witness:
  "(1::nat) \<le> 3 \<and> (3::nat) \<le> 12 \<and> backoff_minutes 12 = of_nat (min (2 ^ (12 - 1)) 1440)
   \<and> backoff_minutes 3 \<le> backoff_minutes 12 \<and> backoff_minutes 12 \<le> 1440
   \<and> backoff_minutes 12 = 1440"
  using backoff_spec [of 3 12] by simp

section \<open>Appending and fetching\<close>

lemma fold_max_ge_init: "(a::int) \<le> fold max xs a"
  by (induction xs arbitrary: a) (auto intro: order_trans [OF max.cobounded2])

lemma fold_max_ge_member: "(x::int) \<in> set xs \<Longrightarrow> x \<le> fold max xs a"
proof (induction xs arbitrary: a)
  case Nil
  then show ?case by simp
next
  case (Cons y ys)
  show ?case
  proof (cases "x = y")
    case True
    have "y \<le> max y a" by simp
    also have "\<dots> \<le> fold max ys (max y a)" by (rule fold_max_ge_init)
    finally show ?thesis using True by simp
  next
    case False
    with Cons.prems have "x \<in> set ys" by simp
    then show ?thesis using Cons.IH by simp
  qed
qed

lemma is_due_iff:
  "is_due now d r \<longleftrightarrow>
     sync_status r = ''pending''
     \<and> (case next_retry r of None \<Rightarrow> True | Some t \<Rightarrow> t \<le> now)
     \<and> julian_day_zero \<le> now - 86400 * int d
     \<and> now - 86400 * int d \<le> created_at r"
  by (simp add: is_due_def days_before_def)

lemma next_rowid_fresh: "r \<in> set (card_reads db) \<Longrightarrow> row_id r < next_rowid db"
  using fold_max_ge_member [of "row_id r" "map row_id (card_reads db)" "sqlite_sequence db"]
  by (simp add: next_rowid_def)

lemma next_rowid_neq: "r \<in> set (card_reads db) \<Longrightarrow> row_id r \<noteq> next_rowid db"
  using next_rowid_fresh [of r db] by simp

lemma fst_get_pending_syncs:
  "fst (get_pending_syncs db now d) =
     map selected (sort_key created_at (filter (is_due now d) (card_reads db)))"
  by (simp add: get_pending_syncs_def)

lemma set_get_pending_syncs:
  "set (fst (get_pending_syncs db now d)) = selected ` {r \<in> set (card_reads db). is_due now d r}"
  by (simp add: get_pending_syncs_def)

lemma fst_selected: "fst (selected r) = row_id r"
  by (simp add: selected_def)

lemma pending_with_id:
  "filter (\<lambda>p. fst p = rid) (fst (get_pending_syncs db now d)) =
     map selected (sort_key created_at
       (filter (\<lambda>r. row_id r = rid \<and> is_due now d r) (card_reads db)))"
  by (simp add: get_pending_syncs_def filter_map o_def fst_selected filter_sort conj_commute)

lemma card_reads_insert:
  "card_reads (fst (insert_card_read db now dev cid cval)) =
     card_reads db @ [\<lparr>row_id = next_rowid db, device_id = dev, card_id = cid, card_value = cval,
               timestamp = now, sync_status = ''pending'', sync_attempts = 0,
               last_sync_attempt = None, next_retry = Some now,
               webhook_response = None, created_at = now\<rparr>]"
  by (simp add: insert_card_read_def Let_def)

lemma snd_insert: "snd (insert_card_read db now dev cid cval) = next_rowid db"
  by (simp add: insert_card_read_def Let_def)

lemma card_reads_first_insert:
  "card_reads (fst (insert_card_read empty_store now dev cid cval)) =
     [\<lparr>row_id = 1, device_id = dev, card_id = cid, card_value = cval, timestamp = now,
       sync_status = ''pending'', sync_attempts = 0, last_sync_attempt = None,
       next_retry = Some now, webhook_response = None, created_at = now\<rparr>]"
  by (simp add: card_reads_insert empty_store_def next_rowid_def)

text \<open>
  C2, as the code has it. \<open>insert_card_read\<close> adds exactly one row, at the end, with the
  given device, card id and value, status pending, no attempts, \<open>next_retry\<close> and
  \<open>created_at\<close> equal to the time of the insert. A \<open>get_pending_syncs\<close> at that same time
  returns that row once, with the inserted values, and on a store that was empty returns
  nothing else, for every age window that starts inside SQLite's range of dates (not
  before Julian day 0).
\<close>

theorem append_then_fetch:
  assumes "julian_day_zero \<le> now - 86400 * int max_age"
  shows "\<exists>r. card_reads (fst (insert_card_read db now dev cid cval)) = card_reads db @ [r]
      \<and> row_id r = snd (insert_card_read db now dev cid cval)
      \<and> device_id r = dev \<and> card_id r = cid \<and> card_value r = cval
      \<and> sync_status r = ''pending'' \<and> sync_attempts r = 0 \<and> next_retry r = Some now
      \<and> last_sync_attempt r = None \<and> timestamp r = now \<and> created_at r = now
      \<and> filter (\<lambda>p. fst p = row_id r)
           (fst (get_pending_syncs (fst (insert_card_read db now dev cid cval)) now max_age))
         = [(row_id r, dev, cid, cval, now, 0, None)]
      \<and> fst (get_pending_syncs (fst (insert_card_read empty_store now dev cid cval)) now max_age)
         = [(1, dev, cid, cval, now, 0, None)]"
proof -
  have old: "filter (\<lambda>r. row_id r = next_rowid db \<and> is_due now max_age r) (card_reads db) = []"
    by (simp add: filter_empty_conv next_rowid_neq)
  have fresh: "fst (get_pending_syncs (fst (insert_card_read empty_store now dev cid cval)) now max_age)
         = [(1, dev, cid, cval, now, 0, None)]"
    using assms
    by (simp add: get_pending_syncs_def card_reads_insert empty_store_def next_rowid_def
        is_due_iff selected_def)
  have new: "is_due now max_age \<lparr>row_id = next_rowid db, device_id = dev, card_id = cid,
      card_value = cval, timestamp = now, sync_status = ''pending'', sync_attempts = 0,
      last_sync_attempt = None, next_retry = Some now, webhook_response = None,
      created_at = now\<rparr>"
    using assms by (simp add: is_due_iff)
  show ?thesis
    by (simp add: pending_with_id card_reads_insert snd_insert old new selected_def fresh)
qed

theorem append_then_fetch_witness:
  "julian_day_zero \<le> 1700000000 - 86400 * int 0
   \<and> fst (get_pending_syncs
        (fst (insert_card_read empty_store 1700000000 ''dev-1'' ''CARD-7'' ''hello''))
        1700000000 0)
     = [(1, ''dev-1'', ''CARD-7'', ''hello'', 1700000000, 0, None)]"
proof -
  have h: "julian_day_zero \<le> 1700000000 - 86400 * int 0"
    by (simp add: julian_day_zero_def)
  from append_then_fetch [OF h, of empty_store "''dev-1''" "''CARD-7''" "''hello''"] h
  show ?thesis
    by blast
qed

text \<open>
  For a window that starts before Julian day 0 the fetch returns nothing, the row just
  inserted included: three million days back from 14 November 2023.
\<close>

theorem append_then_fetch_counterexample:
  "fst (get_pending_syncs
      (fst (insert_card_read empty_store 1700000000 ''dev-1'' ''CARD-7'' ''hello''))
      1700000000 3000000)
   = []"
  by (simp add: get_pending_syncs_def card_reads_first_insert is_due_iff julian_day_zero_def)

text \<open>The same at any later fetch for which the row is still inside the age window.\<close>

lemma append_then_fetch_later:
  assumes "now \<le> now'" and "now' - 86400 * int max_age \<le> now"
    and "julian_day_zero \<le> now' - 86400 * int max_age"
  shows "filter (\<lambda>p. fst p = next_rowid db)
           (fst (get_pending_syncs (fst (insert_card_read db now dev cid cval)) now' max_age))
         = [(next_rowid db, dev, cid, cval, now, 0, None)]"
proof -
  have old: "filter (\<lambda>r. row_id r = next_rowid db \<and> is_due now' max_age r) (card_reads db) = []"
    by (simp add: filter_empty_conv next_rowid_neq)
  have new: "is_due now' max_age \<lparr>row_id = next_rowid db, device_id = dev, card_id = cid,
      card_value = cval, timestamp = now, sync_status = ''pending'', sync_attempts = 0,
      last_sync_attempt = None, next_retry = Some now, webhook_response = None,
      created_at = now\<rparr>"
    using assms by (simp add: is_due_iff julian_day_zero_def)
  show ?thesis
    by (simp add: pending_with_id card_reads_insert old new selected_def)
qed

section \<open>What a fetch returns and what it leaves alone\<close>

lemma same_id_same_row:
  assumes "distinct (map row_id rows)" and "r \<in> set rows" and "r' \<in> set rows"
    and "row_id r' = row_id r"
  shows "r' = r"
  using assms by (auto simp: distinct_map dest: inj_onD)

lemma ids_get_pending_syncs:
  "fst ` set (fst (get_pending_syncs db now d)) =
     row_id ` {r \<in> set (card_reads db). is_due now d r}"
  by (simp add: set_get_pending_syncs image_image fst_selected)

text \<open>
  C6. A row created before \<open>now - max_age\<close> is not in what \<open>get_pending_syncs\<close> returns
  (the primary key makes the ids of the table distinct, so neither its id nor its
  columns come back), and the store the call leaves is the store it found: the row is
  still there, with every column as it was.
\<close>

theorem fetch_skips_old_and_writes_nothing:
  assumes "distinct (map row_id (card_reads db))"
    and "r \<in> set (card_reads db)"
    and "sync_status r = ''pending''"
    and "created_at r < now - 86400 * int max_age"
  shows "row_id r \<notin> fst ` set (fst (get_pending_syncs db now max_age))
       \<and> selected r \<notin> set (fst (get_pending_syncs db now max_age))
       \<and> snd (get_pending_syncs db now max_age) = db
       \<and> r \<in> set (card_reads (snd (get_pending_syncs db now max_age)))"
proof -
  have not_due: "\<not> is_due now max_age r"
    using assms(4) by (simp add: is_due_iff julian_day_zero_def)
  have id: "row_id r \<notin> fst ` set (fst (get_pending_syncs db now max_age))"
  proof
    assume "row_id r \<in> fst ` set (fst (get_pending_syncs db now max_age))"
    then obtain r' where r': "r' \<in> set (card_reads db)" "is_due now max_age r'"
      "row_id r' = row_id r"
      by (auto simp: ids_get_pending_syncs)
    with assms(1,2) have "r' = r" by (auto intro: same_id_same_row)
    with r' not_due show False by simp
  qed
  then have "selected r \<notin> set (fst (get_pending_syncs db now max_age))"
    by (metis fst_selected image_eqI)
  with id assms(2) show ?thesis
    by (simp add: get_pending_syncs_def)
qed

theorem fetch_skips_old_and_writes_nothing_witness:
  "fst (get_pending_syncs (fst (insert_card_read empty_store 0 ''dev-1'' ''CARD-7'' ''hello''))
      (8 * 86400) 7) = []
   \<and> snd (get_pending_syncs (fst (insert_card_read empty_store 0 ''dev-1'' ''CARD-7'' ''hello''))
      (8 * 86400) 7) = fst (insert_card_read empty_store 0 ''dev-1'' ''CARD-7'' ''hello'')"
proof -
  let ?r = "\<lparr>row_id = 1, device_id = ''dev-1'', card_id = ''CARD-7'', card_value = ''hello'',
             timestamp = 0, sync_status = ''pending'', sync_attempts = 0,
             last_sync_attempt = None, next_retry = Some 0, webhook_response = None,
             created_at = 0\<rparr>"
  let ?db = "fst (insert_card_read empty_store 0 ''dev-1'' ''CARD-7'' ''hello'')"
  have rows: "card_reads ?db = [?r]"
    by (simp add: card_reads_insert empty_store_def next_rowid_def)
  have "selected ?r \<notin> set (fst (get_pending_syncs ?db (8 * 86400) 7))
        \<and> snd (get_pending_syncs ?db (8 * 86400) 7) = ?db"
    using fetch_skips_old_and_writes_nothing [of ?db ?r "8 * 86400" 7]
    by (simp add: rows)
  moreover have "set (fst (get_pending_syncs ?db (8 * 86400) 7)) \<subseteq> {selected ?r}"
    by (auto simp: set_get_pending_syncs rows)
  ultimately show ?thesis
    by (cases "fst (get_pending_syncs ?db (8 * 86400) 7)") auto
qed

text \<open>
  C10, as the code has it. A pending row whose \<open>next_retry\<close> is \<open>NULL\<close> and whose
  \<open>created_at\<close> lies within the age window is returned by \<open>get_pending_syncs\<close>, for
  every age window that starts inside SQLite's range of dates (not before Julian day 0).
  The migrator copies \<open>next_retry\<close> as it finds it, \<open>NULL\<close> included, while the row that
  \<open>insert_card_read\<close> adds always has a \<open>next_retry\<close>.
\<close>

theorem null_next_retry_is_due:
  assumes "r \<in> set (card_reads db)"
    and "sync_status r = ''pending''"
    and "next_retry r = None"
    and "now - 86400 * int max_age \<le> created_at r"
    and "julian_day_zero \<le> now - 86400 * int max_age"
  shows "selected r \<in> set (fst (get_pending_syncs db now max_age))
       \<and> next_retry (migrate_row l) = old_next_retry l
       \<and> next_retry (last (card_reads (fst (insert_card_read db' t dev cid cval)))) = Some t"
proof -
  from assms have "is_due now max_age r"
    by (simp add: is_due_iff)
  with assms(1) show ?thesis
    by (auto simp: set_get_pending_syncs migrate_row_def card_reads_insert)
qed

theorem null_next_retry_is_due_witness:
  "snd (migrate_database (Legacy_db
      [\<lparr>old_id = 4, old_device_id = ''dev-1'', old_card_value = ''ABC123'', old_timestamp = 50,
        old_sync_status = ''pending'', old_sync_attempts = 0, old_last_sync_attempt = None,
        old_next_retry = None, old_webhook_response = None, old_created_at = 50\<rparr>]))
     = Inr (Current_db (migrated_store
      [\<lparr>old_id = 4, old_device_id = ''dev-1'', old_card_value = ''ABC123'', old_timestamp = 50,
        old_sync_status = ''pending'', old_sync_attempts = 0, old_last_sync_attempt = None,
        old_next_retry = None, old_webhook_response = None, old_created_at = 50\<rparr>]))
   \<and> (4, ''dev-1'', ''ABC123'', [], 50, 0, None) \<in> set (fst (get_pending_syncs (migrated_store
      [\<lparr>old_id = 4, old_device_id = ''dev-1'', old_card_value = ''ABC123'', old_timestamp = 50,
        old_sync_status = ''pending'', old_sync_attempts = 0, old_last_sync_attempt = None,
        old_next_retry = None, old_webhook_response = None, old_created_at = 50\<rparr>]) 100 7))"
proof -
  let ?l = "\<lparr>old_id = 4, old_device_id = ''dev-1'', old_card_value = ''ABC123'', old_timestamp = 50,
        old_sync_status = ''pending'', old_sync_attempts = 0, old_last_sync_attempt = None,
        old_next_retry = None, old_webhook_response = None, old_created_at = 50\<rparr>"
  have m: "snd (migrate_database (Legacy_db [?l])) = Inr (Current_db (migrated_store [?l]))"
    by (simp add: migrate_database_def check_schema_version_def legacy_columns_def)
  have "selected (migrate_row ?l) \<in> set (fst (get_pending_syncs (migrated_store [?l]) 100 7))"
    using null_next_retry_is_due [of "migrate_row ?l" "migrated_store [?l]" 100 7]
    by (simp add: migrated_store_def migrate_row_def julian_day_zero_def)
  then show ?thesis
    using m by (simp add: selected_def migrate_row_def)
qed

text \<open>
  For a window that starts before Julian day 0 the fetch returns nothing: the migrated
  pending row without a \<open>next_retry\<close>, created 50 seconds before the fetch, is not
  returned for a window of three million days.
\<close>

theorem null_next_retry_is_due_counterexample:
  "fst (get_pending_syncs (migrated_store
      [\<lparr>old_id = 4, old_device_id = ''dev-1'', old_card_value = ''ABC123'',
        old_timestamp = 1699999950, old_sync_status = ''pending'', old_sync_attempts = 0,
        old_last_sync_attempt = None, old_next_retry = None, old_webhook_response = None,
        old_created_at = 1699999950\<rparr>]) 1700000000 3000000)
   = []"
  by (simp add: get_pending_syncs_def migrated_store_def migrate_row_def is_due_iff
      julian_day_zero_def)

section \<open>Recording outcomes\<close>

lemma card_reads_update_where:
  "card_reads (update_where rid f db) = map (\<lambda>r. if row_id r = rid then f r else r) (card_reads db)"
  by (simp add: update_where_def)

lemma row_id_set_success: "row_id (set_success now status response r) = row_id r"
  by (simp add: set_success_def)

lemma row_id_set_retry: "row_id (set_retry now local_now status response a r) = row_id r"
  by (simp add: set_retry_def)

lemma card_reads_success:
  "card_reads (update_sync_status db now local_now rid ''success'' response attempts) =
     map (\<lambda>r. if row_id r = rid then set_success now ''success'' response r else r) (card_reads db)"
  by (simp add: update_sync_status_def card_reads_update_where)

lemma card_reads_retry_given:
  "status \<noteq> ''success'' \<Longrightarrow>
   card_reads (update_sync_status db now local_now rid status response (Some a)) =
     map (\<lambda>r. if row_id r = rid then set_retry now local_now status response a r else r)
       (card_reads db)"
  by (simp add: update_sync_status_def card_reads_update_where)

lemma find_by_id:
  assumes "distinct (map row_id rows)" and "r \<in> set rows"
  shows "find (\<lambda>x. row_id x = row_id r) rows = Some r"
proof -
  from assms(2) obtain x where x: "find (\<lambda>x. row_id x = row_id r) rows = Some x"
    by (cases "find (\<lambda>x. row_id x = row_id r) rows") (auto simp: find_None_iff)
  then have "x \<in> set rows" "row_id x = row_id r"
    by (auto simp: find_Some_iff)
  with assms have "x = r" by (auto intro: same_id_same_row)
  with x show ?thesis by simp
qed

lemma card_reads_retry_counted:
  assumes "distinct (map row_id (card_reads db))" and "r \<in> set (card_reads db)"
    and "status \<noteq> ''success''"
  shows "card_reads (update_sync_status db now local_now (row_id r) status response None) =
     map (\<lambda>x. if row_id x = row_id r
               then set_retry now local_now status response (sync_attempts r + 1) x else x)
       (card_reads db)"
  using assms by (simp add: update_sync_status_def card_reads_update_where find_by_id)

text \<open>Whatever the arguments, an update keeps the ids, and the rows with another id.\<close>

lemma ids_update_sync_status:
  "map row_id (card_reads (update_sync_status db now local_now rid status response attempts)) =
     map row_id (card_reads db)"
  by (auto simp: update_sync_status_def card_reads_update_where row_id_set_success
      row_id_set_retry split: option.splits)

lemma other_rows_update_sync_status:
  "row_id r \<noteq> rid \<Longrightarrow>
   r \<in> set (card_reads (update_sync_status db now local_now rid status response attempts))
     \<longleftrightarrow> r \<in> set (card_reads db)"
  by (auto simp: update_sync_status_def card_reads_update_where row_id_set_success
      row_id_set_retry split: option.splits if_splits)

section \<open>A delivered event stays delivered\<close>

lemma delivered_iff:
  "delivered rid db \<longleftrightarrow>
     rid \<in> row_id ` set (card_reads db)
     \<and> (\<forall>r \<in> set (card_reads db). row_id r = rid \<longrightarrow> sync_status r = ''success'')"
  by (auto simp: delivered_def list_all_iff)

lemma delivered_after_success:
  assumes "rid \<in> row_id ` set (card_reads db)"
  shows "delivered rid (update_sync_status db now local_now rid ''success'' response attempts)"
proof -
  have "map row_id (card_reads (update_sync_status db now local_now rid ''success'' response attempts))
        = map row_id (card_reads db)"
    by (rule ids_update_sync_status)
  then have "row_id ` set (card_reads (update_sync_status db now local_now rid ''success'' response attempts))
        = row_id ` set (card_reads db)"
    by (metis set_map)
  with assms show ?thesis
    by (auto simp: delivered_iff card_reads_success set_success_def)
qed

lemma delivered_insert:
  assumes "delivered rid db"
  shows "delivered rid (fst (insert_card_read db now dev cid cval))"
proof -
  from assms obtain r where "r \<in> set (card_reads db)" "row_id r = rid"
    by (auto simp: delivered_iff)
  then have "next_rowid db \<noteq> rid"
    using next_rowid_neq [of r db] by auto
  with assms show ?thesis
    by (auto simp: delivered_iff card_reads_insert)
qed

lemma delivered_update:
  assumes "delivered rid db" and "i \<noteq> rid \<or> status = ''success''"
  shows "delivered rid (update_sync_status db now local_now i status response attempts)"
proof -
  let ?db' = "update_sync_status db now local_now i status response attempts"
  have "row_id ` set (card_reads ?db') = row_id ` set (card_reads db)"
    using ids_update_sync_status [of db now local_now i status response attempts]
    by (metis set_map)
  moreover have "sync_status r = ''success''" if "r \<in> set (card_reads ?db')" "row_id r = rid" for r
  proof (cases "status = ''success''")
    case True
    with that assms(1) show ?thesis
      by (auto simp: card_reads_success set_success_def delivered_iff split: if_splits)
  next
    case False
    with assms(2) have "i \<noteq> rid" by simp
    with that have "r \<in> set (card_reads db)"
      by (simp add: other_rows_update_sync_status)
    with assms(1) that(2) show ?thesis by (simp add: delivered_iff)
  qed
  ultimately show ?thesis using assms(1) by (simp add: delivered_iff)
qed

lemma delivered_not_fetched:
  assumes "delivered rid db"
  shows "rid \<notin> fst ` set (fst (get_pending_syncs db now d))"
  using assms by (auto simp: delivered_iff ids_get_pending_syncs is_due_iff julian_day_zero_def)

lemma fst_sync_one:
  "\<exists>status response attempts.
     fst (sync_one self post utc_offset written_at p (db, sent)) =
       update_sync_status db (written_at (fst p)) (written_at (fst p) + utc_offset) (fst p)
         status response attempts"
  by (cases p) (auto simp: Let_def split: prod.splits sum.splits)

lemma delivered_sync_one:
  assumes "delivered rid db" and "fst p \<noteq> rid"
  shows "delivered rid (fst (sync_one self post utc_offset written_at p (db, sent)))"
proof -
  obtain status response attempts where
    "fst (sync_one self post utc_offset written_at p (db, sent)) =
       update_sync_status db (written_at (fst p)) (written_at (fst p) + utc_offset) (fst p)
         status response attempts"
    using fst_sync_one by blast
  with assms show ?thesis by (simp add: delivered_update)
qed

lemma delivered_fold_sync_one:
  assumes "delivered rid (fst acc)" and "rid \<notin> fst ` set ps"
  shows "delivered rid (fst (fold (sync_one self post utc_offset written_at) ps acc))"
  using assms
proof (induction ps arbitrary: acc)
  case Nil
  then show ?case by simp
next
  case (Cons p ps)
  obtain db sent where acc: "acc = (db, sent)" by (cases acc)
  with Cons.prems have "delivered rid (fst (sync_one self post utc_offset written_at p acc))"
    by (auto intro: delivered_sync_one)
  with Cons show ?case by simp
qed

lemma delivered_sync_pending_data:
  assumes "delivered rid db"
  shows "delivered rid (fst (sync_pending_data self post utc_offset written_at now db))"
  using assms delivered_not_fetched [OF assms, of now 7]
  by (simp add: sync_pending_data_def Let_def delivered_fold_sync_one)

lemma delivered_apply_operation:
  assumes "delivered rid db" and "\<not> records_failure_for rid op"
  shows "delivered rid (apply_operation op db)"
  using assms
  by (cases op) (auto simp: delivered_insert delivered_update delivered_sync_pending_data)

lemma delivered_fold_operations:
  assumes "delivered rid db" and "\<forall>op \<in> set ops. \<not> records_failure_for rid op"
  shows "delivered rid (fold apply_operation ops db)"
  using assms by (induction ops arbitrary: db) (simp_all add: delivered_apply_operation)

lemma backoff_seconds_first: "backoff_seconds (Suc 0) = 60"
  by (simp add: backoff_seconds_def backoff_minutes_def)

text \<open>
  C3, as the code has it. Once \<open>update_sync_status(rid, 'success')\<close> has been applied to an
  existing event, the event has the status \<open>success\<close> and is in no later result of
  \<open>get_pending_syncs\<close>, at any time and for any age window, after any sequence of
  inserts, sync passes and calls of \<open>update_sync_status\<close> among which none records a
  non-success outcome for that same id. The sync worker never makes such a call: it
  records outcomes for fetched rows only.
\<close>

theorem delivered_is_terminal:
  assumes "rid \<in> row_id ` set (card_reads db)"
    and "\<forall>op \<in> set later. \<not> records_failure_for rid op"
  shows "rid \<notin> fst ` set (fst (get_pending_syncs
           (fold apply_operation later
              (update_sync_status db now local_now rid ''success'' response attempts))
           now' max_age))
       \<and> (\<forall>r \<in> set (card_reads (fold apply_operation later
              (update_sync_status db now local_now rid ''success'' response attempts))).
            row_id r = rid \<longrightarrow> sync_status r = ''success'')"
proof -
  have "delivered rid (update_sync_status db now local_now rid ''success'' response attempts)"
    using assms(1) by (rule delivered_after_success)
  then have "delivered rid (fold apply_operation later
      (update_sync_status db now local_now rid ''success'' response attempts))"
    using assms(2) by (rule delivered_fold_operations)
  then show ?thesis
    using delivered_not_fetched by (simp add: delivered_iff)
qed

theorem delivered_is_terminal_witness:
  "1 \<notin> fst ` set (fst (get_pending_syncs
      (fold apply_operation
         [Append 150 ''dev-1'' ''CARD-8'' ''again'',
          Drain \<lparr>config = \<lparr>webhook_url = Some ''http://hook'', api_key = None\<rparr>,
                  self_device_id = ''dev-1''\<rparr>
            (\<lambda>req. RequestException ''timed out'') 0 (\<lambda>rid. 200) 200,
          Outcome 250 250 2 ''pending'' (Some ''refused'') None]
         (update_sync_status (fst (insert_card_read empty_store 0 ''dev-1'' ''CARD-7'' ''hello''))
            100 100 1 ''success'' (Some ''ok'') None))
      400 7))"
  using delivered_is_terminal [of 1 "fst (insert_card_read empty_store 0 ''dev-1'' ''CARD-7'' ''hello'')"
      "[Append 150 ''dev-1'' ''CARD-8'' ''again'',
          Drain \<lparr>config = \<lparr>webhook_url = Some ''http://hook'', api_key = None\<rparr>,
                  self_device_id = ''dev-1''\<rparr>
            (\<lambda>req. RequestException ''timed out'') 0 (\<lambda>rid. 200) 200,
          Outcome 250 250 2 ''pending'' (Some ''refused'') None]"
      100 100 "Some ''ok''" None 400 7]
  by (simp add: card_reads_first_insert)

text \<open>
  Without the restriction on the later operations the statement fails: recording a
  failure for an event that was delivered makes the row pending again, and a later fetch
  returns it.
\<close>

theorem delivered_is_terminal_counterexample:
  "fst (get_pending_syncs
      (fold apply_operation [Outcome 200 200 1 ''pending'' (Some ''timed out'') None]
         (update_sync_status (fst (insert_card_read empty_store 0 ''dev-1'' ''CARD-7'' ''hello''))
            100 100 1 ''success'' (Some ''ok'') None))
      300 7)
   = [(1, ''dev-1'', ''CARD-7'', ''hello'', 0, 1, Some 200)]"
  by (simp add: get_pending_syncs_def update_sync_status_def update_where_def
      card_reads_first_insert set_success_def set_retry_def backoff_seconds_first is_due_iff julian_day_zero_def
      selected_def)

section \<open>One pass of the sync worker\<close>

lemma send_webhook_unconfigured:
  "falsy (webhook_url (config self)) \<Longrightarrow>
   send_webhook self post cid cval = ([], Inr (False, ''No webhook URL configured''))"
  by (simp add: send_webhook_def)

lemma send_webhook_request_exception:
  "\<not> falsy (webhook_url (config self)) \<Longrightarrow>
   snd (send_webhook self (\<lambda>req. RequestException e) cid cval) = Inr (False, e)"
  by (simp add: send_webhook_def Let_def)

text \<open>An answer other than 200 is a failure whose reason shows the status and the body.\<close>

lemma send_webhook_server_error:
  "snd (send_webhook
      \<lparr>config = \<lparr>webhook_url = Some ''http://hook'', api_key = Some ''s3cret''\<rparr>,
        self_device_id = ''dev-1''\<rparr>
      (\<lambda>req. if headers req = [(''Content-Type'', ''application/json''), (''x-api-key'', ''s3cret'')]
             then Response 503 ''busy'' else Response 200 ''ok'')
      ''CARD-7'' ''hello'')
   = Inr (False, ''HTTP 503: busy'')"
  by code_simp

text \<open>A failed delivery, with its reason: the method returned \<open>False\<close> or raised.\<close>

lemma sync_one_failure:
  assumes "snd (send_webhook self post cid cval) = Inr (False, reason)
         \<or> snd (send_webhook self post cid cval) = Inl reason"
  shows "fst (sync_one self post utc_offset written_at (rid, dev, cid, cval, ts, a, la) (db, sent))
         = update_sync_status db (written_at rid) (written_at rid + utc_offset) rid ''pending''
             (Some reason) (Some (a + 1))"
  using assms by (auto simp: Let_def split: prod.splits sum.splits)

lemma sync_one_sent:
  "snd (sync_one self post utc_offset written_at (rid, dev, cid, cval, ts, a, la) (db, sent))
     = sent @ fst (send_webhook self post cid cval)"
  by (auto simp: Let_def split: prod.splits sum.splits)

lemma kept_by_sync_one:
  assumes "r \<in> set (card_reads db)" and "row_id r \<noteq> fst p"
  shows "r \<in> set (card_reads (fst (sync_one self post utc_offset written_at p (db, sent))))"
proof -
  obtain status response attempts where
    "fst (sync_one self post utc_offset written_at p (db, sent)) =
       update_sync_status db (written_at (fst p)) (written_at (fst p) + utc_offset) (fst p)
         status response attempts"
    using fst_sync_one by blast
  with assms show ?thesis by (simp add: other_rows_update_sync_status)
qed

lemma kept_by_fold_sync_one:
  assumes "r \<in> set (card_reads (fst acc))" and "row_id r \<notin> fst ` set ps"
  shows "r \<in> set (card_reads (fst (fold (sync_one self post utc_offset written_at) ps acc)))"
  using assms
proof (induction ps arbitrary: acc)
  case Nil
  then show ?case by simp
next
  case (Cons p ps)
  obtain db sent where acc: "acc = (db, sent)" by (cases acc)
  with Cons.prems
  have "r \<in> set (card_reads (fst (sync_one self post utc_offset written_at p acc)))"
    by (auto intro: kept_by_sync_one)
  with Cons show ?case by simp
qed

lemma failed_row_after_fold:
  assumes "distinct (map fst ps)"
    and "(rid, dev, cid, cval, ts, a, la) \<in> set ps"
    and "snd (send_webhook self post cid cval) = Inr (False, reason)
         \<or> snd (send_webhook self post cid cval) = Inl reason"
    and "r \<in> set (card_reads (fst acc))" and "row_id r = rid"
  shows "set_retry (written_at rid) (written_at rid + utc_offset) ''pending'' (Some reason) (a + 1) r
         \<in> set (card_reads (fst (fold (sync_one self post utc_offset written_at) ps acc)))"
  using assms(1,2,4)
proof (induction ps arbitrary: acc)
  case Nil
  then show ?case by simp
next
  case (Cons q ps)
  obtain db sent where acc: "acc = (db, sent)" by (cases acc)
  let ?r' = "set_retry (written_at rid) (written_at rid + utc_offset) ''pending'' (Some reason) (a + 1) r"
  show ?case
  proof (cases "q = (rid, dev, cid, cval, ts, a, la)")
    case True
    have "?r' \<in> set (card_reads (fst (sync_one self post utc_offset written_at q acc)))"
      using Cons.prems(3) assms(5) sync_one_failure [OF assms(3), of utc_offset written_at rid dev ts a la db sent]
      by (auto simp: True acc card_reads_retry_given)
    moreover have "row_id ?r' \<notin> fst ` set ps"
      using Cons.prems(1) assms(5) by (simp add: True row_id_set_retry)
    ultimately show ?thesis
      by (simp add: kept_by_fold_sync_one)
  next
    case False
    with Cons.prems(2) have in_ps: "(rid, dev, cid, cval, ts, a, la) \<in> set ps" by simp
    then have "rid \<in> fst ` set ps" by force
    with Cons.prems(1) have "fst q \<noteq> rid" by auto
    with Cons.prems(3) assms(5)
    have "r \<in> set (card_reads (fst (sync_one self post utc_offset written_at q acc)))"
      by (auto simp: acc intro: kept_by_sync_one)
    with Cons.IH [of "sync_one self post utc_offset written_at q acc"] Cons.prems(1) in_ps
    show ?thesis by simp
  qed
qed

lemma distinct_ids_get_pending_syncs:
  assumes "distinct (map row_id (card_reads db))"
  shows "distinct (map fst (fst (get_pending_syncs db now d)))"
proof -
  let ?xs = "sort_key created_at (filter (is_due now d) (card_reads db))"
  from assms have "distinct (card_reads db)" "inj_on row_id (set (card_reads db))"
    by (simp_all add: distinct_map)
  then have "distinct ?xs" "inj_on row_id (set ?xs)"
    by (auto intro: inj_on_subset)
  then have "distinct (map row_id ?xs)"
    by (simp add: distinct_map)
  moreover have "map fst (fst (get_pending_syncs db now d)) = map row_id ?xs"
    by (simp add: get_pending_syncs_def o_def fst_selected)
  ultimately show ?thesis by simp
qed

lemma failed_row_after_pass:
  assumes "distinct (map row_id (card_reads db))"
    and "r \<in> set (card_reads db)" and "is_due now 7 r"
    and "snd (send_webhook self post (card_id r) (card_value r)) = Inr (False, reason)
         \<or> snd (send_webhook self post (card_id r) (card_value r)) = Inl reason"
  shows "set_retry (written_at (row_id r)) (written_at (row_id r) + utc_offset) ''pending''
           (Some reason) (sync_attempts r + 1) r
         \<in> set (card_reads (fst (sync_pending_data self post utc_offset written_at now db)))"
proof -
  let ?ps = "fst (get_pending_syncs db now 7)"
  have sel: "selected r \<in> set ?ps"
    using assms(2,3) by (auto simp: set_get_pending_syncs)
  then have ne: "?ps \<noteq> []" by auto
  have "(row_id r, device_id r, card_id r, card_value r, timestamp r, sync_attempts r,
         last_sync_attempt r) \<in> set ?ps"
    using sel by (simp add: selected_def)
  then show ?thesis
    using failed_row_after_fold [OF distinct_ids_get_pending_syncs [OF assms(1)], of "row_id r"
        "device_id r" "card_id r" "card_value r" "timestamp r" "sync_attempts r"
        "last_sync_attempt r" now 7 self post reason r "(db, [])" written_at utc_offset]
      assms(2,4) ne
    by (simp add: sync_pending_data_def Let_def)
qed

lemma unconfigured_sends_nothing:
  assumes "falsy (webhook_url (config self))"
  shows "snd (fold (sync_one self post utc_offset written_at) ps acc) = snd acc"
proof (induction ps arbitrary: acc)
  case Nil
  then show ?case by simp
next
  case (Cons p ps)
  obtain db sent where acc: "acc = (db, sent)" by (cases acc)
  obtain rid dev cid cval ts a la where p: "p = (rid, dev, cid, cval, ts, a, la)"
    by (cases p)
  have "snd (sync_one self post utc_offset written_at p acc) = snd acc"
    unfolding p acc sync_one_sent by (simp add: send_webhook_unconfigured [OF assms])
  with Cons show ?case by simp
qed

lemma fold_sync_one_same_store:
  assumes "\<And>p db s s'. fst (sync_one self post utc_offset written_at p (db, s))
             = fst (sync_one self' post' utc_offset written_at p (db, s'))"
    and "fst acc = fst acc'"
  shows "fst (fold (sync_one self post utc_offset written_at) ps acc)
       = fst (fold (sync_one self' post' utc_offset written_at) ps acc')"
  using assms(2)
proof (induction ps arbitrary: acc acc')
  case Nil
  then show ?case by simp
next
  case (Cons p ps)
  obtain db s where acc: "acc = (db, s)" by (cases acc)
  obtain db' s' where acc': "acc' = (db', s')" by (cases acc')
  from Cons.prems have "db' = db" by (simp add: acc acc')
  then have "fst (sync_one self post utc_offset written_at p acc)
           = fst (sync_one self' post' utc_offset written_at p acc')"
    using assms(1) by (simp add: acc acc')
  with Cons.IH show ?case by simp
qed

lemma unconfigured_like_request_exception:
  assumes "falsy (webhook_url (config self))" and "\<not> falsy (webhook_url (config other))"
  shows "fst (sync_pending_data self post utc_offset written_at now db)
       = fst (sync_pending_data other (\<lambda>req. RequestException ''No webhook URL configured'')
                utc_offset written_at now db)"
proof -
  have step: "fst (sync_one self post utc_offset written_at p (db, s))
       = fst (sync_one other (\<lambda>req. RequestException ''No webhook URL configured'')
                utc_offset written_at p (db, s'))" for p db s s'
  proof -
    obtain rid dev cid cval ts a la where p: "p = (rid, dev, cid, cval, ts, a, la)"
      by (cases p)
    have "snd (send_webhook self post cid cval) = Inr (False, ''No webhook URL configured'')"
      by (simp add: send_webhook_unconfigured [OF assms(1)])
    moreover have "snd (send_webhook other (\<lambda>req. RequestException ''No webhook URL configured'')
        cid cval) = Inr (False, ''No webhook URL configured'')"
      by (rule send_webhook_request_exception [OF assms(2)])
    ultimately show ?thesis
      unfolding p
      using sync_one_failure [of self post cid cval "''No webhook URL configured''"
          utc_offset written_at rid dev ts a la db s]
        sync_one_failure [of other "\<lambda>req. RequestException ''No webhook URL configured''"
          cid cval "''No webhook URL configured''" utc_offset written_at rid dev ts a la db s']
      by simp
  qed
  show ?thesis
    unfolding sync_pending_data_def Let_def
    by (simp add: fold_sync_one_same_store [OF step])
qed

text \<open>
  C7. With no \<open>webhook_url\<close> configured (missing or empty), \<open>send_webhook\<close> returns the
  failure \<open>(False, "No webhook URL configured")\<close> and sends nothing. A sync pass then
  sends no request at all, and treats every due row as it treats any failed delivery:
  the row stays pending, its attempt count goes up by one, the reason is stored, and
  \<open>next_retry\<close> is moved by the backoff of the new count. The store it leaves is the one
  a configured reader leaves when every request fails with that reason.
\<close>

theorem unconfigured_endpoint_is_failure:
  assumes "falsy (webhook_url (config self))"
    and "\<not> falsy (webhook_url (config other))"
    and "distinct (map row_id (card_reads db))"
    and "r \<in> set (card_reads db)" and "is_due now 7 r"
  shows "send_webhook self post cid cval = ([], Inr (False, ''No webhook URL configured''))
       \<and> snd (sync_pending_data self post utc_offset written_at now db) = []
       \<and> r\<lparr>sync_status := ''pending'', sync_attempts := sync_attempts r + 1,
            last_sync_attempt := Some (written_at (row_id r)),
            next_retry := Some (written_at (row_id r) + utc_offset
                                + backoff_seconds (sync_attempts r + 1)),
            webhook_response := Some ''No webhook URL configured''\<rparr>
           \<in> set (card_reads (fst (sync_pending_data self post utc_offset written_at now db)))
       \<and> fst (sync_pending_data self post utc_offset written_at now db)
           = fst (sync_pending_data other (\<lambda>req. RequestException ''No webhook URL configured'')
                    utc_offset written_at now db)"
proof -
  have sent: "snd (sync_pending_data self post utc_offset written_at now db) = []"
    by (simp add: sync_pending_data_def Let_def unconfigured_sends_nothing [OF assms(1)])
  have "snd (send_webhook self post (card_id r) (card_value r))
          = Inr (False, ''No webhook URL configured'')"
    by (simp add: send_webhook_unconfigured [OF assms(1)])
  then have "set_retry (written_at (row_id r)) (written_at (row_id r) + utc_offset) ''pending''
           (Some ''No webhook URL configured'') (sync_attempts r + 1) r
         \<in> set (card_reads (fst (sync_pending_data self post utc_offset written_at now db)))"
    using failed_row_after_pass [OF assms(3,4,5)] by blast
  then show ?thesis
    using sent send_webhook_unconfigured [OF assms(1)]
      unconfigured_like_request_exception [OF assms(1,2)]
    by (simp add: set_retry_def)
qed

theorem unconfigured_endpoint_is_failure_witness:
  "snd (sync_pending_data \<lparr>config = \<lparr>webhook_url = None, api_key = None\<rparr>, self_device_id = ''dev-1''\<rparr>
          (\<lambda>req. Response 200 ''ok'') 0 (\<lambda>rid. 130) 130
          (fst (insert_card_read empty_store 100 ''dev-1'' ''CARD-7'' ''hello''))) = []
   \<and> \<lparr>row_id = 1, device_id = ''dev-1'', card_id = ''CARD-7'', card_value = ''hello'',
       timestamp = 100, sync_status = ''pending'', sync_attempts = 1,
       last_sync_attempt = Some 130, next_retry = Some 190,
       webhook_response = Some ''No webhook URL configured'', created_at = 100\<rparr>
      \<in> set (card_reads (fst (sync_pending_data
          \<lparr>config = \<lparr>webhook_url = None, api_key = None\<rparr>, self_device_id = ''dev-1''\<rparr>
          (\<lambda>req. Response 200 ''ok'') 0 (\<lambda>rid. 130) 130
          (fst (insert_card_read empty_store 100 ''dev-1'' ''CARD-7'' ''hello'')))))"
proof -
  let ?self = "\<lparr>config = \<lparr>webhook_url = None, api_key = None\<rparr>, self_device_id = ''dev-1''\<rparr>"
  let ?other = "\<lparr>config = \<lparr>webhook_url = Some ''http://hook'', api_key = None\<rparr>,
                 self_device_id = ''dev-1''\<rparr>"
  let ?db = "fst (insert_card_read empty_store 100 ''dev-1'' ''CARD-7'' ''hello'')"
  let ?r = "\<lparr>row_id = 1, device_id = ''dev-1'', card_id = ''CARD-7'', card_value = ''hello'',
       timestamp = 100, sync_status = ''pending'', sync_attempts = 0,
       last_sync_attempt = None, next_retry = Some 100,
       webhook_response = None, created_at = 100\<rparr>"
  have h: "falsy (webhook_url (config ?self))" "\<not> falsy (webhook_url (config ?other))"
    "distinct (map row_id (card_reads ?db))" "?r \<in> set (card_reads ?db)" "is_due 130 7 ?r"
    by (simp_all add: falsy_def card_reads_first_insert is_due_iff julian_day_zero_def)
  note t = unconfigured_endpoint_is_failure [OF h, of "\<lambda>req. Response 200 ''ok''"
      "''CARD-7''" "''hello''" 0 "\<lambda>rid. 130"]
  from t [THEN conjunct2, THEN conjunct1] t [THEN conjunct2, THEN conjunct2, THEN conjunct1]
  show ?thesis
    by (simp add: backoff_seconds_first)
qed

section \<open>Rescheduling after a failure\<close>

text \<open>
  What a recorded failure does to the row, with the count read back from the row
  (\<open>attempts = None\<close>), and when the row is due again. The new \<open>next_retry\<close> is taken
  from the host's wall clock, the fetch compares it with UTC.
\<close>

lemma failure_reschedules:
  assumes "distinct (map row_id (card_reads db))" and "r \<in> set (card_reads db)"
  shows "card_reads (update_sync_status db now local_now (row_id r) ''pending'' (Some reason) None)
         = map (\<lambda>x. if row_id x = row_id r
                  then x\<lparr>sync_status := ''pending'', sync_attempts := sync_attempts r + 1,
                         last_sync_attempt := Some now,
                         next_retry := Some (local_now + backoff_seconds (sync_attempts r + 1)),
                         webhook_response := Some reason\<rparr>
                  else x) (card_reads db)"
  using card_reads_retry_counted [OF assms, of "''pending''" now local_now "Some reason"]
  by (simp add: set_retry_def)

lemma rescheduled_due_iff:
  "is_due now' d (set_retry now local_now ''pending'' response a r)
     \<longleftrightarrow> local_now + backoff_seconds a \<le> now'
         \<and> julian_day_zero \<le> now' - 86400 * int d \<and> now' - 86400 * int d \<le> created_at r"
  by (auto simp: is_due_iff julian_day_zero_def set_retry_def)

lemma failure_on_utc_host:
  assumes "distinct (map row_id (card_reads db))" and "r \<in> set (card_reads db)"
    and "now' < now + backoff_seconds (sync_attempts r + 1)"
  shows "row_id r \<notin> fst ` set (fst (get_pending_syncs
           (update_sync_status db now now (row_id r) ''pending'' (Some reason) None) now' d))"
proof
  let ?db' = "update_sync_status db now now (row_id r) ''pending'' (Some reason) None"
  assume "row_id r \<in> fst ` set (fst (get_pending_syncs ?db' now' d))"
  then obtain x where x: "x \<in> set (card_reads ?db')" "is_due now' d x" "row_id x = row_id r"
    by (auto simp: ids_get_pending_syncs)
  from x(1,3) obtain y where
    "x = set_retry now now ''pending'' (Some reason) (sync_attempts r + 1) y"
    by (auto simp: card_reads_retry_counted [OF assms(1,2)] split: if_splits)
  with x(2) assms(3) show False
    by (simp add: rescheduled_due_iff)
qed

text \<open>
  C4 on a host whose time zone is one hour west of UTC. An event inserted at 100000
  fails at 100030 (UTC): the attempt count becomes 1 and the reason is stored, but
  \<open>next_retry\<close> is 96490, an hour less a minute before the failure rather than a minute
  after it, and a fetch one second after the failure returns the event again.
\<close>

theorem backoff_lost_west_of_utc:
  "map (\<lambda>r. (sync_status r, sync_attempts r, last_sync_attempt r, next_retry r, webhook_response r))
     (card_reads (fst (sync_pending_data
        \<lparr>config = \<lparr>webhook_url = Some ''http://hook'', api_key = None\<rparr>, self_device_id = ''dev-1''\<rparr>
        (\<lambda>req. RequestException ''timed out'') (- 3600) (\<lambda>rid. 100030) 100030
        (fst (insert_card_read empty_store 100000 ''dev-1'' ''CARD-7'' ''hello'')))))
   = [(''pending'', 1, Some 100030, Some 96490, Some ''timed out'')]
   \<and> fst (get_pending_syncs (fst (sync_pending_data
        \<lparr>config = \<lparr>webhook_url = Some ''http://hook'', api_key = None\<rparr>, self_device_id = ''dev-1''\<rparr>
        (\<lambda>req. RequestException ''timed out'') (- 3600) (\<lambda>rid. 100030) 100030
        (fst (insert_card_read empty_store 100000 ''dev-1'' ''CARD-7'' ''hello'')))) 100031 7)
   = [(1, ''dev-1'', ''CARD-7'', ''hello'', 100000, 1, Some 100030)]"
proof -
  let ?self = "\<lparr>config = \<lparr>webhook_url = Some ''http://hook'', api_key = None\<rparr>,
                self_device_id = ''dev-1''\<rparr>"
  let ?db = "fst (insert_card_read empty_store 100000 ''dev-1'' ''CARD-7'' ''hello'')"
  have pending: "fst (get_pending_syncs ?db 100030 7)
      = [(1, ''dev-1'', ''CARD-7'', ''hello'', 100000, 0, None)]"
    by (simp add: get_pending_syncs_def card_reads_first_insert is_due_iff julian_day_zero_def selected_def)
  have sent: "send_webhook ?self (\<lambda>req. RequestException ''timed out'') ''CARD-7'' ''hello''
      = ([\<lparr>url = ''http://hook'',
           json = [(''device_id'', ''dev-1''), (''card_id'', ''CARD-7''), (''card_value'', ''hello'')],
           headers = [(''Content-Type'', ''application/json'')], timeout = 10\<rparr>],
         Inr (False, ''timed out''))"
    by (simp add: send_webhook_def falsy_def Let_def)
  have rows: "card_reads (fst (sync_pending_data ?self (\<lambda>req. RequestException ''timed out'')
      (- 3600) (\<lambda>rid. 100030) 100030 ?db))
    = [\<lparr>row_id = 1, device_id = ''dev-1'', card_id = ''CARD-7'', card_value = ''hello'',
        timestamp = 100000, sync_status = ''pending'', sync_attempts = 1,
        last_sync_attempt = Some 100030, next_retry = Some 96490,
        webhook_response = Some ''timed out'', created_at = 100000\<rparr>]"
    by (simp add: sync_pending_data_def pending sent card_reads_retry_given
        card_reads_first_insert set_retry_def backoff_seconds_first)
  show ?thesis
    by (simp add: rows get_pending_syncs_def is_due_iff julian_day_zero_def selected_def)
qed

section \<open>\<open>next_retry\<close> against the time of the write\<close>

text \<open>
  C8, as the code has it. The row that \<open>insert_card_read\<close> adds has \<open>next_retry\<close> equal
  to the time of the insert. A non-success outcome recorded at \<open>now\<close> on a host whose
  wall clock is no more than 30 seconds behind UTC leaves every row it wrote with
  \<open>last_sync_attempt = now\<close> and a \<open>next_retry\<close> that is not before \<open>now\<close>. A success
  outcome, on any host, sets \<open>last_sync_attempt = now\<close> and leaves \<open>next_retry\<close> of every
  row as it was.
\<close>

theorem next_retry_after_each_write:
  "next_retry (last (card_reads (fst (insert_card_read db now dev cid cval)))) = Some now
       \<and> created_at (last (card_reads (fst (insert_card_read db now dev cid cval)))) = now
       \<and> (status \<noteq> ''success'' \<and> now \<le> local_now + 30 \<longrightarrow>
           (\<forall>r \<in> set (card_reads (update_sync_status db now local_now rid status response attempts)).
             row_id r = rid \<longrightarrow>
               last_sync_attempt r = Some now
               \<and> (case next_retry r of Some t \<Rightarrow> now \<le> t | None \<Rightarrow> False)))
       \<and> map next_retry (card_reads (update_sync_status db now local_now rid ''success'' response attempts))
           = map next_retry (card_reads db)
       \<and> (\<forall>r \<in> set (card_reads (update_sync_status db now local_now rid ''success'' response attempts)).
             row_id r = rid \<longrightarrow> last_sync_attempt r = Some now)"
proof -
  have retry: "last_sync_attempt r = Some now
               \<and> (case next_retry r of Some t \<Rightarrow> now \<le> t | None \<Rightarrow> False)"
    if ne: "status \<noteq> ''success''" and clk: "now \<le> local_now + 30"
      and "r \<in> set (card_reads (update_sync_status db now local_now rid status response attempts))"
      and "row_id r = rid" for r
  proof -
    have written: "last_sync_attempt (set_retry now local_now status response a x) = Some now
        \<and> (case next_retry (set_retry now local_now status response a x) of
              Some t \<Rightarrow> now \<le> t | None \<Rightarrow> False)" for a x
      using clk backoff_seconds_ge_30 [of a] by (simp add: set_retry_def)
    show ?thesis
    proof (cases attempts)
      case (Some a)
      with that obtain x where "r = set_retry now local_now status response a x"
        by (auto simp: card_reads_retry_given split: if_splits)
      with written show ?thesis by simp
    next
      case None
      show ?thesis
      proof (cases "find (\<lambda>x. row_id x = rid) (card_reads db)")
        case None
        then have "\<forall>x \<in> set (card_reads db). row_id x \<noteq> rid"
          by (simp add: find_None_iff)
        moreover from None \<open>attempts = None\<close> ne that(3) have "r \<in> set (card_reads db)"
          by (simp add: update_sync_status_def)
        ultimately show ?thesis using that(4) by blast
      next
        case (Some y)
        with \<open>attempts = None\<close> that obtain x where
          "r = set_retry now local_now status response (sync_attempts y + 1) x"
          by (auto simp: update_sync_status_def card_reads_update_where split: if_splits)
        with written show ?thesis by simp
      qed
    qed
  qed
  have success: "map next_retry (card_reads (update_sync_status db now local_now rid ''success'' response attempts))
           = map next_retry (card_reads db)"
    by (induction "card_reads db") (simp_all add: card_reads_success set_success_def)
  have stamped: "last_sync_attempt r = Some now"
    if "r \<in> set (card_reads (update_sync_status db now local_now rid ''success'' response attempts))"
      and "row_id r = rid" for r
  proof -
    from that(1)
    have "r \<in> (\<lambda>x. if row_id x = rid then set_success now ''success'' response x else x)
            ` set (card_reads db)"
      by (simp add: card_reads_success)
    then obtain x where
      x: "r = (if row_id x = rid then set_success now ''success'' response x else x)"
      by (rule imageE)
    show ?thesis
    proof (cases "row_id x = rid")
      case True
      with x show ?thesis by (simp add: set_success_def)
    next
      case False
      with x that(2) show ?thesis by simp
    qed
  qed
  have inserted:
    "next_retry (last (card_reads (fst (insert_card_read db now dev cid cval)))) = Some now
     \<and> created_at (last (card_reads (fst (insert_card_read db now dev cid cval)))) = now"
    by (simp add: card_reads_insert)
  from inserted retry success stamped show ?thesis
    by blast
qed

theorem next_retry_after_each_write_witness:
  "''pending'' \<noteq> ''success'' \<and> (100030::int) \<le> 100030 + 30
   \<and> map (\<lambda>r. (last_sync_attempt r, next_retry r))
       (card_reads (update_sync_status
          (fst (insert_card_read empty_store 100000 ''dev-1'' ''CARD-7'' ''hello''))
          100030 100030 1 ''pending'' (Some ''timed out'') None))
     = [(Some 100030, Some 100090)]
   \<and> (case next_retry (hd (card_reads (update_sync_status
          (fst (insert_card_read empty_store 100000 ''dev-1'' ''CARD-7'' ''hello''))
          100030 100030 1 ''pending'' (Some ''timed out'') None))) of
         Some t \<Rightarrow> 100030 \<le> t | None \<Rightarrow> False)
   \<and> map next_retry (card_reads (update_sync_status
          (fst (insert_card_read empty_store 100000 ''dev-1'' ''CARD-7'' ''hello''))
          100030 100030 1 ''success'' (Some ''ok'') None))
     = [Some 100000]"
proof -
  let ?db = "fst (insert_card_read empty_store 100000 ''dev-1'' ''CARD-7'' ''hello'')"
  let ?db' = "update_sync_status ?db 100030 100030 1 ''pending'' (Some ''timed out'') None"
  have h: "''pending'' \<noteq> ''success''" "(100030::int) \<le> 100030 + 30"
    by simp_all
  note t = next_retry_after_each_write [where db = ?db and now = 100030 and local_now = 100030
      and rid = 1 and status = "''pending''" and response = "Some ''timed out''"
      and attempts = None]
  have rows: "card_reads ?db' =
      [\<lparr>row_id = 1, device_id = ''dev-1'', card_id = ''CARD-7'', card_value = ''hello'',
        timestamp = 100000, sync_status = ''pending'', sync_attempts = 1,
        last_sync_attempt = Some 100030, next_retry = Some 100090,
        webhook_response = Some ''timed out'', created_at = 100000\<rparr>]"
    by (simp add: update_sync_status_def update_where_def card_reads_first_insert set_retry_def
        backoff_seconds_first)
  have "hd (card_reads ?db') \<in> set (card_reads ?db')" "row_id (hd (card_reads ?db')) = 1"
    by (simp_all add: rows)
  with h t [THEN conjunct2, THEN conjunct2, THEN conjunct1]
  have due: "case next_retry (hd (card_reads ?db')) of Some t \<Rightarrow> 100030 \<le> t | None \<Rightarrow> False"
    by blast
  have "map next_retry (card_reads (update_sync_status ?db 100030 100030 1 ''success''
      (Some ''ok'') None)) = [Some 100000]"
    by (simp add: card_reads_success card_reads_first_insert set_success_def)
  with due show ?thesis
    by (simp add: rows)
qed

text \<open>
  After a success \<open>next_retry\<close> can lie before the write: an event inserted at 100000
  and delivered at 100030 keeps the \<open>next_retry\<close> of its insert, thirty seconds before
  the write that changed its status.
\<close>

theorem next_retry_after_each_write_counterexample:
  "map (\<lambda>r. (sync_status r, last_sync_attempt r, next_retry r))
     (card_reads (fst (sync_pending_data
        \<lparr>config = \<lparr>webhook_url = Some ''http://hook'', api_key = None\<rparr>, self_device_id = ''dev-1''\<rparr>
        (\<lambda>req. Response 200 ''ok'') 0 (\<lambda>rid. 100030) 100030
        (fst (insert_card_read empty_store 100000 ''dev-1'' ''CARD-7'' ''hello'')))))
   = [(''success'', Some 100030, Some 100000)]"
proof -
  let ?self = "\<lparr>config = \<lparr>webhook_url = Some ''http://hook'', api_key = None\<rparr>,
                self_device_id = ''dev-1''\<rparr>"
  let ?db = "fst (insert_card_read empty_store 100000 ''dev-1'' ''CARD-7'' ''hello'')"
  have pending: "fst (get_pending_syncs ?db 100030 7)
      = [(1, ''dev-1'', ''CARD-7'', ''hello'', 100000, 0, None)]"
    by (simp add: get_pending_syncs_def card_reads_first_insert is_due_iff julian_day_zero_def selected_def)
  have sent: "send_webhook ?self (\<lambda>req. Response 200 ''ok'') ''CARD-7'' ''hello''
      = ([\<lparr>url = ''http://hook'',
           json = [(''device_id'', ''dev-1''), (''card_id'', ''CARD-7''), (''card_value'', ''hello'')],
           headers = [(''Content-Type'', ''application/json'')], timeout = 10\<rparr>],
         Inr (True, ''ok''))"
    by (simp add: send_webhook_def falsy_def Let_def)
  show ?thesis
    by (simp add: sync_pending_data_def pending sent card_reads_success card_reads_first_insert
        set_success_def)
qed

section \<open>The schema migrator\<close>

lemma check_schema_version_legacy: "check_schema_version (Legacy_db rows) = ([], ''old'')"
  by (simp add: check_schema_version_def legacy_columns_def)

lemma check_schema_version_current: "check_schema_version (Current_db db) = ([], ''new'')"
  by (simp add: check_schema_version_def current_columns_def)

lemma check_schema_version_unknown:
  "snd (check_schema_version f) = ''unknown'' \<longleftrightarrow> (\<exists>e. f = Unopenable e \<or> f = Unreadable e)"
  by (cases f) (simp_all add: check_schema_version_def legacy_columns_def current_columns_def)

lemma migrate_database_legacy_full:
  "migrate_database (Legacy_db rows) =
     ([(INFO, ''Migrating database from old schema to new schema...''),
       (INFO, ''Database migration completed successfully!'')],
      Inr (Current_db (migrated_store rows)))"
  by (simp add: migrate_database_def check_schema_version_legacy)

lemma migrate_database_legacy:
  "snd (migrate_database (Legacy_db rows)) = Inr (Current_db (migrated_store rows))"
  by (simp add: migrate_database_legacy_full)

lemma migrate_database_current: "snd (migrate_database (Current_db db)) = Inr (Current_db db)"
  by (simp add: migrate_database_def check_schema_version_current)

lemma main_legacy:
  "snd (main (Some (Legacy_db rows))) = (Returned, Some (Current_db (migrated_store rows)))"
  by (simp add: main_def check_schema_version_legacy migrate_database_legacy_full)

text \<open>
  A database without the table has no \<open>card_id\<close> column either: it is taken for the old
  layout, the copy raises after \<open>card_reads_new\<close> has been created, and \<open>main\<close> exits
  with status 1; a second run stops at \<open>CREATE TABLE\<close>.
\<close>

lemma main_no_table:
  "snd (check_schema_version (No_table leftover)) = ''old''
   \<and> snd (migrate_database (No_table False)) = Inl (''no such table: card_reads'', No_table True)
   \<and> snd (migrate_database (No_table True))
       = Inl (''table card_reads_new already exists'', No_table True)
   \<and> snd (main (Some (No_table leftover))) = (Exit 1, Some (No_table True))"
  by (simp add: main_def migrate_database_def check_schema_version_def Let_def)

text \<open>A second run finds the current layout and changes nothing.\<close>

lemma main_twice:
  "snd (main (snd (snd (main (Some (Legacy_db rows)))))) =
     (Returned, Some (Current_db (migrated_store rows)))"
  by (simp add: main_legacy) (simp add: main_def check_schema_version_current)

text \<open>
  C5. Migrating a legacy table yields a current table with as many rows, in the same
  order; each row has the legacy payload as \<open>card_id\<close>, the empty string as
  \<open>card_value\<close>, and the id, device id, status, attempt count, response and the four
  timestamps of the legacy row.
\<close>

theorem migration_keeps_rows:
  "\<exists>db. snd (migrate_database (Legacy_db rows)) = Inr (Current_db db)
      \<and> snd (main (Some (Legacy_db rows))) = (Returned, Some (Current_db db))
      \<and> length (card_reads db) = length rows
      \<and> map card_id (card_reads db) = map old_card_value rows
      \<and> list_all (\<lambda>r. card_value r = []) (card_reads db)
      \<and> map row_id (card_reads db) = map old_id rows
      \<and> map device_id (card_reads db) = map old_device_id rows
      \<and> map sync_status (card_reads db) = map old_sync_status rows
      \<and> map sync_attempts (card_reads db) = map old_sync_attempts rows
      \<and> map webhook_response (card_reads db) = map old_webhook_response rows
      \<and> map timestamp (card_reads db) = map old_timestamp rows
      \<and> map last_sync_attempt (card_reads db) = map old_last_sync_attempt rows
      \<and> map next_retry (card_reads db) = map old_next_retry rows
      \<and> map created_at (card_reads db) = map old_created_at rows"
proof -
  have "list_all (\<lambda>r. card_value r = []) (map migrate_row rows)"
    by (simp add: list_all_iff migrate_row_def)
  then show ?thesis
    by (simp add: migrate_database_legacy main_legacy migrated_store_def o_def migrate_row_def)
qed

text \<open>The row of the specification's example, \<open>payload = "ABC123"\<close>.\<close>

lemma migrate_abc123:
  "snd (migrate_database (Legacy_db
      [\<lparr>old_id = 4, old_device_id = ''dev-1'', old_card_value = ''ABC123'', old_timestamp = 50,
        old_sync_status = ''success'', old_sync_attempts = 2, old_last_sync_attempt = Some 300,
        old_next_retry = Some 170, old_webhook_response = Some ''ok'', old_created_at = 50\<rparr>]))
   = Inr (Current_db \<lparr>card_reads =
      [\<lparr>row_id = 4, device_id = ''dev-1'', card_id = ''ABC123'', card_value = '''',
        timestamp = 50, sync_status = ''success'', sync_attempts = 2,
        last_sync_attempt = Some 300, next_retry = Some 170, webhook_response = Some ''ok'',
        created_at = 50\<rparr>], sqlite_sequence = 4\<rparr>)"
  by (simp add: migrate_database_legacy migrated_store_def migrate_row_def)

text \<open>
  C9, as the code has it. When the probe of \<open>check_schema_version\<close> raises (the file
  cannot be opened or queried), the answer is \<open>unknown\<close>; \<open>main\<close> then logs the error
  \<open>Could not determine database schema\<close>, exits with status 1 and leaves the file as it
  was. \<open>migrate_database\<close> called on such a file logs an error and leaves the file as it
  was: it re-raises when the file cannot be opened, and otherwise returns normally. No
  other file is answered \<open>unknown\<close>: a file that can be queried is told apart by the
  presence of a \<open>card_id\<close> column alone.
\<close>

theorem unknown_schema_stops_migration:
  assumes "table_info f = Inl e"
  shows "check_schema_version f = ([(ERROR, ''Error checking schema: '' @ e)], ''unknown'')
       \<and> fst (snd (main (Some f))) = Exit 1
       \<and> snd (snd (main (Some f))) = Some f
       \<and> (ERROR, ''Could not determine database schema'') \<in> set (fst (main (Some f)))
       \<and> snd (migrate_database f) = (if f = Unopenable e then Inl (e, f) else Inr f)
       \<and> ERROR \<in> fst ` set (fst (migrate_database f))
       \<and> (snd (check_schema_version g) = ''unknown'' \<longleftrightarrow> (\<exists>e'. table_info g = Inl e'))"
proof -
  have g: "snd (check_schema_version g) = ''unknown'' \<longleftrightarrow> (\<exists>e'. table_info g = Inl e')"
    by (cases g) (simp_all add: check_schema_version_def legacy_columns_def current_columns_def)
  from assms have "f = Unopenable e \<or> f = Unreadable e"
    by (cases f) simp_all
  then show ?thesis
    using g by (auto simp: main_def migrate_database_def check_schema_version_def)
qed

theorem unknown_schema_stops_migration_witness:
  "table_info (Unreadable ''file is not a database'') = Inl ''file is not a database''
   \<and> main (Some (Unreadable ''file is not a database''))
     = ([(INFO, ''Checking database schema: /var/lib/rfid_reader/card_reads.db''),
         (ERROR, ''Error checking schema: file is not a database''),
         (ERROR, ''Could not determine database schema'')],
        Exit 1, Some (Unreadable ''file is not a database''))
   \<and> migrate_database (Unreadable ''file is not a database'')
     = ([(ERROR, ''Error checking schema: file is not a database''),
         (ERROR, ''Could not determine database schema'')],
        Inr (Unreadable ''file is not a database''))
   \<and> fst (snd (main (Some (Unreadable ''file is not a database'')))) = Exit 1"
proof -
  have h: "table_info (Unreadable ''file is not a database'') = Inl ''file is not a database''"
    by simp
  have "main (Some (Unreadable ''file is not a database''))
     = ([(INFO, ''Checking database schema: /var/lib/rfid_reader/card_reads.db''),
         (ERROR, ''Error checking schema: file is not a database''),
         (ERROR, ''Could not determine database schema'')],
        Exit 1, Some (Unreadable ''file is not a database''))"
    by (simp add: main_def check_schema_version_def db_path_def)
  moreover have "migrate_database (Unreadable ''file is not a database'')
     = ([(ERROR, ''Error checking schema: file is not a database''),
         (ERROR, ''Could not determine database schema'')],
        Inr (Unreadable ''file is not a database''))"
    by (simp add: migrate_database_def check_schema_version_def)
  ultimately show ?thesis
    using unknown_schema_stops_migration [OF h, THEN conjunct2, THEN conjunct1] h
    by blast
qed

text \<open>
  A layout that is neither the legacy nor the current one is not answered \<open>unknown\<close>. A
  database without a \<open>card_reads\<close> table is taken for the legacy layout: \<open>main\<close> starts
  the migration, which creates \<open>card_reads_new\<close> and then fails with SQLite's error, not
  with a finding about the schema.
\<close>

theorem unknown_schema_stops_migration_counterexample:
  "check_schema_version (No_table False) = ([], ''old'')
   \<and> main (Some (No_table False))
     = ([(INFO, ''Checking database schema: /var/lib/rfid_reader/card_reads.db''),
         (INFO, ''Database has old schema, migrating...''),
         (INFO, ''Migrating database from old schema to new schema...''),
         (ERROR, ''Error during migration: no such table: card_reads''),
         (ERROR, ''Migration failed: no such table: card_reads'')],
        Exit 1, Some (No_table True))"
  by (simp add: main_def migrate_database_def check_schema_version_def db_path_def Let_def)

end
